theory Spec2Isabelle
  imports Complex_Main "HOL-Library.Log_Nat"
begin

section \<open>The deck box generator (src/boxes/generators/deckbox.py)\<close>

text \<open>
  The generator computes the panels of a card box with \<open>num\<close> compartments. It draws
  nothing itself: every method of \<open>deckbox.py\<close> calls the drawing primitives of the
  \<open>Boxes\<close> base class (\<open>edge\<close>, \<open>corner\<close>, \<open>fingerHolesAt\<close>, \<open>rectangularWall\<close>,
  \<open>addPart\<close>, \<open>saved_context\<close>), which are not part of the file. The embedding
  therefore records, in order, the calls a method makes together with their arguments.

  Numbers: \<open>deckheight\<close>, \<open>cardwidth\<close>, \<open>cardheight\<close> and \<open>thickness\<close> are Python floats
  and \<open>num\<close> is a Python int. A float is given by its value, a \<^typ>\<open>real\<close>, and
  the dimensions passed on to the panels are the expressions of the source, read over
  the reals. The divider offsets, whose order and spacing depend on the rounding of
  each operation, are computed in double arithmetic. \<open>/\<close> is Python 3's true division.
\<close>

subsection \<open>Errors\<close>

text \<open>
  The three kinds of failure the specification names. \<open>deckbox.py\<close> defines none of
  them and contains no \<open>raise\<close>, no \<open>assert\<close> and no early \<open>return\<close>: the methods
  below have no failing branch, and the ones a claim about failure mentions return
  a result of type \<open>error + 'a\<close> that is \<open>Inr\<close> on every path.
\<close>

datatype error = InvalidParameter | GeometryUnderflow | UnregisteredEdgeSymbol

subsection \<open>Parameters and derived dimensions\<close>

text \<open>The attributes of a \<open>DeckBox\<close> the methods read (lines 83--94, and \<open>thickness\<close>
  of the base class).\<close>

record DeckBox =
  deckheight :: real
  cardwidth :: real
  cardheight :: real
  num :: int
  thickness :: real

text \<open>Lines 96--106: the three properties.\<close>

definition boxwidth :: "DeckBox \<Rightarrow> real" where
  "boxwidth self = of_int (num self) * (deckheight self + thickness self) + thickness self"

definition boxdepth :: "DeckBox \<Rightarrow> real" where
  "boxdepth self = cardwidth self + 2 * thickness self"

definition h :: "DeckBox \<Rightarrow> real" where
  "h self = cardheight self"

subsection \<open>Edge profiles\<close>

text \<open>
  A call of a path primitive: \<open>corner(degrees, radius)\<close> or \<open>edge(length, tabs)\<close>.
  \<open>corner(90)\<close> leaves the radius at its default, which is 0.
\<close>

datatype cmd = Corner real real | Edge real int

record InsetEdgeSettings =
  inset_thickness :: real

record FingerHoleEdgeSettings =
  fh_thickness :: real
  wallheight :: real

text \<open>Lines 31--39: \<open>InsetEdge.__call__\<close>.\<close>

definition InsetEdge_call :: "InsetEdgeSettings \<Rightarrow> real \<Rightarrow> error + cmd list" where
  "InsetEdge_call settings length' =
     (let t = inset_thickness settings in
      Inr [Corner 90 0,
           Edge t 2,
           Corner (- 90) 0,
           Edge length' 2,
           Corner (- 90) 0,
           Edge t 2,
           Corner 90 0])"

text \<open>Lines 51--59: \<open>FingerHoleEdge.__call__\<close>.\<close>

definition FingerHoleEdge_call :: "FingerHoleEdgeSettings \<Rightarrow> real \<Rightarrow> error + cmd list" where
  "FingerHoleEdge_call settings length' =
     (let depth = wallheight settings / 5 in
      Inr [Edge (length' / 2 - 10) 2,
           Corner 90 0,
           Edge depth 2,
           Corner (- 180) 10,
           Edge depth 2,
           Corner 90 0,
           Edge (length' / 2 - 10) 2])"

text \<open>Reading a path: its advances, its turns, and the sum of its turning angles.\<close>

fun advances :: "cmd list \<Rightarrow> (real \<times> int) list" where
  "advances [] = []"
| "advances (Edge l tabs # cs) = (l, tabs) # advances cs"
| "advances (Corner d r # cs) = advances cs"

fun net_turn :: "cmd list \<Rightarrow> real" where
  "net_turn [] = 0"
| "net_turn (Corner d r # cs) = d + net_turn cs"
| "net_turn (Edge l tabs # cs) = net_turn cs"

text \<open>
  Modelled from the spec: the path primitives "turn" and "advance" of the external
  drawing engine (\<open>Boxes.corner\<close> and \<open>Boxes.edge\<close>, not in \<open>deckbox.py\<close>). A pose is a
  position and a heading in degrees, counter-clockwise positive. \<open>edge(l)\<close> advances
  by \<open>l\<close> along the heading. \<open>corner(d, r)\<close> turns by \<open>d\<close> degrees along a circular
  arc of radius \<open>r\<close> that is tangent to the heading, its centre to the left for a
  positive and to the right for a negative \<open>d\<close>; with radius 0 it turns on the spot.
  The burn (kerf) correction of the engine is left out: this is the nominal outline.
\<close>

record pose =
  px :: real
  py :: real
  heading :: real

definition rad :: "real \<Rightarrow> real" where
  "rad d = d * pi / 180"

fun step :: "cmd \<Rightarrow> pose \<Rightarrow> pose" where
  "step (Edge l tabs) s =
     s\<lparr>px := px s + l * cos (rad (heading s)),
       py := py s + l * sin (rad (heading s))\<rparr>"
| "step (Corner d r) s =
     s\<lparr>px := px s + sgn d * r * (sin (rad (heading s + d)) - sin (rad (heading s))),
       py := py s + sgn d * r * (cos (rad (heading s)) - cos (rad (heading s + d))),
       heading := heading s + d\<rparr>"

fun run_path :: "cmd list \<Rightarrow> pose \<Rightarrow> pose" where
  "run_path [] s = s"
| "run_path (c # cs) s = run_path cs (step c s)"

subsection \<open>Double arithmetic\<close>

text \<open>
  The divider offsets are sums and products of Python floats, and what the claims
  say about their order and spacing depends on how each operation rounds. Python's
  float is the IEEE 754 binary64 format: a finite double is an integer multiple
  \<open>m * 2^e\<close> with \<open>\<bar>m\<bar> < 2^53\<close> and \<open>e \<ge> -1074\<close>, below \<open>2^1024\<close> in magnitude, and
  every operation returns the double nearest to the exact result, the one with the
  even \<open>m\<close> when two are equally near, or an infinity when that double would reach
  \<open>2^1024\<close>. Signed zeros are not distinguished.

  \<open>round_even\<close> rounds to the nearest integer, ties to the even one. \<open>round_grid k\<close>
  rounds \<open>x\<close> to 53 significant bits on the grid of the multiples of \<open>2^-k\<close>: with
  \<open>X = x * 2^k\<close>, the spacing is \<open>2^s\<close> grid steps where \<open>s\<close> is the number of bits of
  the integer part of \<open>\<bar>X\<bar>\<close> beyond 53.
\<close>

definition round_even :: "real \<Rightarrow> int" where
  "round_even q =
     (let f = \<lfloor>q\<rfloor>; r = q - of_int f in
      if r < 1 / 2 then f else if 1 / 2 < r then f + 1 else if even f then f else f + 1)"

definition round_grid :: "nat \<Rightarrow> real \<Rightarrow> real" where
  "round_grid k x =
     (let X = x * 2 ^ k; s = nat (bitlen \<lfloor>\<bar>X\<bar>\<rfloor> - 53) in
      of_int (round_even (X / 2 ^ s)) * 2 ^ s / 2 ^ k)"

definition round_binary64 :: "real \<Rightarrow> real" where
  "round_binary64 x = round_grid 1074 x"

datatype double = Finite real | PosInf | NegInf | NaN

definition rnd :: "real \<Rightarrow> double" where
  "rnd x =
     (let r = round_binary64 x in
      if 2 ^ 1024 \<le> r then PosInf else if r \<le> - (2 ^ 1024) then NegInf else Finite r)"

text \<open>Float addition and multiplication (\<open>+\<close> and \<open>*\<close> on Python floats).\<close>

fun fadd :: "double \<Rightarrow> double \<Rightarrow> double" where
  "fadd (Finite x) (Finite y) = rnd (x + y)"
| "fadd NaN b = NaN"
| "fadd a NaN = NaN"
| "fadd PosInf NegInf = NaN"
| "fadd NegInf PosInf = NaN"
| "fadd PosInf b = PosInf"
| "fadd a PosInf = PosInf"
| "fadd NegInf b = NegInf"
| "fadd a NegInf = NegInf"

fun fmul :: "double \<Rightarrow> double \<Rightarrow> double" where
  "fmul (Finite x) (Finite y) = rnd (x * y)"
| "fmul NaN b = NaN"
| "fmul a NaN = NaN"
| "fmul (Finite x) PosInf = (if x = 0 then NaN else if 0 < x then PosInf else NegInf)"
| "fmul (Finite x) NegInf = (if x = 0 then NaN else if 0 < x then NegInf else PosInf)"
| "fmul PosInf (Finite y) = (if y = 0 then NaN else if 0 < y then PosInf else NegInf)"
| "fmul NegInf (Finite y) = (if y = 0 then NaN else if 0 < y then NegInf else PosInf)"
| "fmul PosInf PosInf = PosInf"
| "fmul NegInf NegInf = PosInf"
| "fmul PosInf NegInf = NegInf"
| "fmul NegInf PosInf = NegInf"

text \<open>
  The conversion of a Python int in a mixed operation such as \<open>(c+t)*i\<close>: the
  nearest double. For an int of \<open>2^1024\<close> or more Python raises \<open>OverflowError\<close>
  instead; the properties below are stated for loop indices up to \<open>2^1023\<close>.
\<close>

definition float_of_int :: "int \<Rightarrow> double" where
  "float_of_int i = rnd (of_int i)"

text \<open>The comparisons \<open><\<close> and \<open><=\<close> of floats; every comparison with a NaN is false.\<close>

fun flt :: "double \<Rightarrow> double \<Rightarrow> bool" where
  "flt (Finite x) (Finite y) = (x < y)"
| "flt NegInf (Finite y) = True"
| "flt (Finite x) PosInf = True"
| "flt NegInf PosInf = True"
| "flt a b = False"

fun fle :: "double \<Rightarrow> double \<Rightarrow> bool" where
  "fle (Finite x) (Finite y) = (x \<le> y)"
| "fle NegInf (Finite y) = True"
| "fle (Finite x) PosInf = True"
| "fle NegInf PosInf = True"
| "fle NegInf NegInf = True"
| "fle PosInf PosInf = True"
| "fle a b = False"

subsection \<open>Divider holes\<close>

text \<open>
  A call \<open>fingerHolesAt(x, y, length, angle)\<close>. The offset \<open>x\<close> is kept as the double
  the code computes; \<open>y\<close>, \<open>length\<close> and \<open>angle\<close> are passed on as they are.
\<close>

record hole =
  hx :: double
  hy :: real
  hlength :: real
  hangle :: real

text \<open>
  Lines 108--121. \<open>range(1, self.num)\<close> is the list of the integers from 1 to
  \<open>num - 1\<close>, empty when \<open>num \<le> 1\<close>. The offset \<open>0.5*t + (c+t)*i\<close> is evaluated as
  Python does, one rounded operation after the other; the attributes \<open>thickness\<close> and
  \<open>deckheight\<close> are finite doubles, given by their values.
\<close>

definition divider_bottom :: "DeckBox \<Rightarrow> hole list" where
  "divider_bottom self =
     (let t = Finite (thickness self); c = Finite (deckheight self); y = boxdepth self in
      map (\<lambda>i. \<lparr>hx = fadd (fmul (Finite 0.5) t) (fmul (fadd c t) (float_of_int i)),
                 hy = 0, hlength = y, hangle = 90\<rparr>)
        [1..num self - 1])"

definition divider_back_and_front :: "DeckBox \<Rightarrow> hole list" where
  "divider_back_and_front self =
     (let t = Finite (thickness self); c = Finite (deckheight self); y = cardheight self in
      map (\<lambda>i. \<lparr>hx = fadd (fmul (Finite 0.5) t) (fmul (fadd c t) (float_of_int i)),
                 hy = 0, hlength = y, hangle = 90\<rparr>)
        [1..num self - 1])"

subsection \<open>The panel sequence\<close>

text \<open>
  What \<open>render\<close> does, call by call: a part registered under its character
  (\<open>p.char = "a"; self.addPart(p)\<close>), the entry and the exit of a
  \<open>with self.saved_context()\<close> block, and a call of \<open>rectangularWall\<close> with its
  arguments (no callback is the empty list, no label the empty string).
\<close>

datatype part = InsetEdge InsetEdgeSettings | FingerHoleEdge FingerHoleEdgeSettings

datatype callback = Divider_bottom | Divider_back_and_front

record wall =
  wx :: real
  wy :: real
  edges :: string
  callback :: "callback list"
  move :: string
  label :: string

datatype event =
    AddPart char part
  | SaveContext
  | RestoreContext
  | RectangularWall wall

definition rectangularWall ::
    "real \<Rightarrow> real \<Rightarrow> string \<Rightarrow> callback list \<Rightarrow> string \<Rightarrow> string \<Rightarrow> event" where
  "rectangularWall x y es cb mv lbl =
     RectangularWall \<lparr>wx = x, wy = y, edges = es, callback = cb, move = mv, label = lbl\<rparr>"

text \<open>Lines 123--182. \<open>range(n)\<close> is the list of the integers from 0 to \<open>n - 1\<close>.\<close>

definition render :: "DeckBox \<Rightarrow> error + event list" where
  "render self =
     (let h' = h self;
          t = thickness self;
          x = boxwidth self;
          y = boxdepth self;
          c = deckheight self
      in Inr (
        [AddPart CHR ''a'' (InsetEdge \<lparr>inset_thickness = t\<rparr>),
         AddPart CHR ''A'' (FingerHoleEdge \<lparr>fh_thickness = t, wallheight = h'\<rparr>),
         SaveContext,
         rectangularWall x (y - t * 0.2) ''eFee'' [] ''right'' ''Lid'',
         rectangularWall x y ''ffff'' [Divider_bottom] ''right'' ''Bottom'',
         RestoreContext,
         rectangularWall x y ''eEEE'' [] ''up only'' '''',
         rectangularWall x t ''feee'' [] ''up'' ''Lip Front'',
         rectangularWall x t ''eefe'' [] ''up'' ''Lip Back'',
         SaveContext,
         rectangularWall x (h' + t) ''FfFf'' [Divider_back_and_front] ''right'' ''Back'',
         rectangularWall x (h' + t) ''FfFf'' [Divider_back_and_front] ''right'' ''Front'',
         RestoreContext,
         rectangularWall x (h' + t) ''EEEE'' [] ''up only'' '''',
         SaveContext,
         rectangularWall y (h' + t) ''FFEF'' [] ''right'' ''Outer Side Left'',
         rectangularWall y (h' + t) ''FFaF'' [] ''right'' ''Outer Side Right'',
         RestoreContext,
         rectangularWall y (h' + t) ''fFfF'' [] ''up only'' '''',
         SaveContext,
         rectangularWall y h' ''Aeee'' [] ''right'' ''Inner Side Left'',
         rectangularWall y h' ''Aeee'' [] ''right'' ''Inner Side Right'',
         RestoreContext,
         rectangularWall y h' ''eAee'' [] ''up only'' '''',
         SaveContext,
         rectangularWall (y - t * 0.2) t ''fEeE'' [] ''right'' ''Lid Lip'',
         RestoreContext,
         rectangularWall y (t * 2) ''efee'' [] ''up only'' '''']
        @ map (\<lambda>i. rectangularWall h' y ''fAff'' [] ''right'' ''Divider'') [0..num self - 1 - 1]
        @ concat (map (\<lambda>i. [rectangularWall c h' ''eeee'' [] ''right'' ''Front inlay'',
                             rectangularWall c h' ''eeee'' [] ''right'' ''Back inlay''])
                   [0..num self - 1])
        @ [rectangularWall x (y - 2 * t) ''eeee'' [] ''right'' ''Lid topper'']))"

text \<open>Reading the trace of a run.\<close>

fun walls :: "event list \<Rightarrow> wall list" where
  "walls [] = []"
| "walls (RectangularWall w # evs) = w # walls evs"
| "walls (e # evs) = walls evs"

fun registered :: "event list \<Rightarrow> (char \<times> part) list" where
  "registered [] = []"
| "registered (AddPart ch p # evs) = (ch, p) # registered evs"
| "registered (e # evs) = registered evs"

text \<open>
  Modelled from the spec: the renderer's "advance without drawing" mode
  (\<open>Boxes.move\<close>, not in \<open>deckbox.py\<close>). The \<open>move\<close> argument is a list of words
  separated by spaces, and a wall whose words include \<open>only\<close> reserves its place
  without being drawn.
\<close>

fun split_words :: "string \<Rightarrow> string \<Rightarrow> string list" where
  "split_words acc [] = (if acc = [] then [] else [rev acc])"
| "split_words acc (ch # cs) =
     (if ch = CHR '' '' then (if acc = [] then split_words [] cs else rev acc # split_words [] cs)
      else split_words (ch # acc) cs)"

definition drawn :: "wall \<Rightarrow> bool" where
  "drawn w = (''only'' \<notin> set (split_words [] (move w)))"

text \<open>The panels a run emits: the walls it draws; none if it fails.\<close>

definition panels :: "error + event list \<Rightarrow> wall list" where
  "panels res = (case res of Inl e \<Rightarrow> [] | Inr evs \<Rightarrow> filter drawn (walls evs))"

definition placeholders :: "error + event list \<Rightarrow> wall list" where
  "placeholders res = (case res of Inl e \<Rightarrow> [] | Inr evs \<Rightarrow> filter (\<lambda>w. \<not> drawn w) (walls evs))"

text \<open>The edge parts a run registers, by their characters.\<close>

definition parts :: "error + event list \<Rightarrow> (char \<times> part) list" where
  "parts res = (case res of Inl e \<Rightarrow> [] | Inr evs \<Rightarrow> registered evs)"

definition labelled :: "string \<Rightarrow> wall list \<Rightarrow> wall list" where
  "labelled l ws = filter (\<lambda>w. label w = l) ws"

text \<open>The two end-to-end scenarios of the specification.\<close>

definition scenario_A :: DeckBox where
  "scenario_A = \<lparr>deckheight = 65, cardwidth = 68, cardheight = 92, num = 3, thickness = 3\<rparr>"

definition scenario_B :: DeckBox where
  "scenario_B = \<lparr>deckheight = 65, cardwidth = 68, cardheight = 92, num = 1, thickness = 3\<rparr>"

text \<open>The default parameters with \<open>--num 0\<close>: an input that violates \<open>num \<ge> 1\<close>.\<close>

definition zero_compartments :: DeckBox where
  "zero_compartments =
     \<lparr>deckheight = 65, cardwidth = 68, cardheight = 92, num = 0, thickness = 3\<rparr>"

text \<open>
  Two further inputs for the divider offsets: \<open>--deckheight 60 --num 4\<close> with a
  thickness of 3.1, which as a double is \<open>6980579422424269 / 2^51\<close>; and a deck height
  of \<open>2^1023\<close> with thickness 2, where the offsets overflow.
\<close>

definition uneven_gaps :: DeckBox where
  "uneven_gaps =
     \<lparr>deckheight = 60, cardwidth = 68, cardheight = 92, num = 4,
      thickness = 6980579422424269 / 2 ^ 51\<rparr>"

definition overflowing :: DeckBox where
  "overflowing =
     \<lparr>deckheight = 2 ^ 1023, cardwidth = 68, cardheight = 92, num = 4, thickness = 2\<rparr>"

section \<open>Derived dimensions\<close>


section \<open>Divider holes\<close>

subsection \<open>Rounding\<close>

lemma round_even_mono: "q \<le> q' \<Longrightarrow> round_even q \<le> round_even q'"
proof -
  assume le: "q \<le> q'"
  then have floors: "\<lfloor>q\<rfloor> \<le> \<lfloor>q'\<rfloor>" by (rule floor_mono)
  show ?thesis
  proof (cases "\<lfloor>q\<rfloor> = \<lfloor>q'\<rfloor>")
    case True
    with le show ?thesis by (auto simp: round_even_def Let_def)
  next
    case False
    with floors have "\<lfloor>q\<rfloor> + 1 \<le> \<lfloor>q'\<rfloor>" by simp
    moreover have "round_even q \<le> \<lfloor>q\<rfloor> + 1" by (auto simp: round_even_def Let_def)
    moreover have "\<lfloor>q'\<rfloor> \<le> round_even q'" by (auto simp: round_even_def Let_def)
    ultimately show ?thesis by linarith
  qed
qed

lemma round_even_lower: "\<lfloor>q\<rfloor> \<le> round_even q"
  by (auto simp: round_even_def Let_def)

lemma round_even_upper: "round_even q \<le> \<lfloor>q\<rfloor> + 1"
  by (auto simp: round_even_def Let_def)

lemma bitlen_eqI:
  assumes "2 ^ n \<le> N" and "N < 2 ^ Suc n"
  shows "bitlen N = int n + 1"
proof -
  have "(0::int) < 2 ^ n" by simp
  with assms(1) have pos: "0 < N" by linarith
  have lo: "(2::nat) ^ n \<le> nat N"
    using assms(1) pos by (simp add: le_nat_iff)
  have hi: "nat N < (2::nat) ^ Suc n"
    using assms(2) pos by (simp add: nat_less_iff)
  have "Suc n \<le> floorlog 2 (nat N)" using lo by (intro floorlog_ge_SucI) simp_all
  moreover have "floorlog 2 (nat N) \<le> Suc n" using hi by (intro floorlog_leI) simp_all
  ultimately show ?thesis by (simp add: bitlen_def)
qed

lemma bitlen_mono: "a \<le> b \<Longrightarrow> bitlen a \<le> bitlen b"
  by (simp add: bitlen_def floorlog_mono nat_mono)

text \<open>Between \<open>2^e\<close> and \<open>2^(e+1)\<close> the doubles are \<open>2^(e-52)\<close> apart.\<close>

lemma round_grid_normal:
  assumes "2 ^ e \<le> \<bar>x\<bar>" and "\<bar>x\<bar> < 2 ^ Suc e" and "52 \<le> e + k"
  shows "round_grid k x = of_int (round_even (x * 2 ^ 52 / 2 ^ e)) * 2 ^ e / 2 ^ 52"
proof -
  let ?X = "x * 2 ^ k"
  have magnitude: "\<bar>?X\<bar> = \<bar>x\<bar> * 2 ^ k" by (simp add: abs_mult)
  have lo: "(2::real) ^ (e + k) \<le> \<bar>?X\<bar>"
    using assms(1) by (simp only: magnitude power_add) (simp add: mult_right_mono)
  have hi: "\<bar>?X\<bar> < (2::real) ^ Suc (e + k)"
    using assms(2)
    by (simp only: magnitude power_add power_Suc) (simp add: mult_strict_right_mono)
  have lo': "(2::int) ^ (e + k) \<le> \<lfloor>\<bar>?X\<bar>\<rfloor>"
    using lo by (simp add: le_floor_iff)
  have hi': "\<lfloor>\<bar>?X\<bar>\<rfloor> < (2::int) ^ Suc (e + k)"
    using hi by (simp add: floor_less_iff)
  have bits: "bitlen \<lfloor>\<bar>?X\<bar>\<rfloor> = int (e + k) + 1"
    using lo' hi' by (rule bitlen_eqI)
  have shift: "nat (bitlen \<lfloor>\<bar>?X\<bar>\<rfloor> - 53) = e + k - 52"
    using assms(3) by (simp add: bits)
  have "(2::real) ^ (e + k) = 2 ^ (e + k - 52) * 2 ^ 52"
    using assms(3) by (simp only: power_add [symmetric]) simp
  then have pw: "(2::real) ^ (e + k - 52) = 2 ^ e * 2 ^ k / 2 ^ 52"
    by (simp add: power_add field_simps)
  have mantissa: "?X / 2 ^ (e + k - 52) = x * 2 ^ 52 / 2 ^ e"
    by (simp only: pw) (simp add: field_simps)
  have unscale: "(2::real) ^ (e + k - 52) / 2 ^ k = 2 ^ e / 2 ^ 52"
    by (simp only: pw) (simp add: field_simps)
  have "round_grid k x =
      of_int (round_even (x * 2 ^ 52 / 2 ^ e)) * (2 ^ (e + k - 52) / 2 ^ k)"
    unfolding round_grid_def Let_def shift mantissa by simp
  then show ?thesis by (simp only: unscale) simp
qed

lemma rnd_normalI:
  assumes "2 ^ e \<le> \<bar>x\<bar>" and "\<bar>x\<bar> < 2 ^ Suc e"
    and "of_int (round_even (x * 2 ^ 52 / 2 ^ e)) * 2 ^ e / 2 ^ 52 = y"
    and "y < 2 ^ 1024" and "- (2 ^ 1024) < y"
  shows "rnd x = Finite y"
proof -
  have "round_binary64 x = y"
    unfolding round_binary64_def
    using round_grid_normal [OF assms(1,2), of 1074] assms(3) by simp
  with assms(4,5) show ?thesis by (simp add: rnd_def)
qed

lemma rnd_overflowI:
  assumes "2 ^ e \<le> \<bar>x\<bar>" and "\<bar>x\<bar> < 2 ^ Suc e"
    and "2 ^ 1024 \<le> of_int (round_even (x * 2 ^ 52 / 2 ^ e)) * 2 ^ e / (2 ^ 52 :: real)"
  shows "rnd x = PosInf"
proof -
  have "round_binary64 x = of_int (round_even (x * 2 ^ 52 / 2 ^ e)) * 2 ^ e / 2 ^ 52"
    unfolding round_binary64_def
    using round_grid_normal [OF assms(1,2), of 1074] by simp
  with assms(3) show ?thesis by (simp add: rnd_def)
qed

text \<open>Rounding keeps the order of non-negative numbers.\<close>

lemma below_power_bitlen:
  assumes "0 \<le> X"
  shows "X < 2 ^ (53 + nat (bitlen \<lfloor>X\<rfloor> - 53))"
proof -
  let ?b = "bitlen \<lfloor>X\<rfloor>"
  have fl: "0 \<le> \<lfloor>X\<rfloor>" using assms by simp
  have "\<lfloor>X\<rfloor> < 2 ^ nat ?b"
  proof (cases "\<lfloor>X\<rfloor> = 0")
    case True
    then show ?thesis by simp
  next
    case False
    with fl have "0 < \<lfloor>X\<rfloor>" by linarith
    from bitlen_bounds [OF this] show ?thesis by simp
  qed
  moreover have "nat ?b \<le> 53 + nat (?b - 53)" by simp
  then have "(2::int) ^ nat ?b \<le> 2 ^ (53 + nat (?b - 53))"
    by (intro power_increasing) simp_all
  ultimately have "\<lfloor>X\<rfloor> < 2 ^ (53 + nat (?b - 53))" by linarith
  then show ?thesis by (simp add: floor_less_iff)
qed

lemma above_power_bitlen:
  assumes "0 < nat (bitlen \<lfloor>Y\<rfloor> - 53)"
  shows "2 ^ (52 + nat (bitlen \<lfloor>Y\<rfloor> - 53)) \<le> Y"
proof -
  let ?b = "bitlen \<lfloor>Y\<rfloor>"
  from assms have big: "53 < ?b" by simp
  then have "0 < \<lfloor>Y\<rfloor>"
    using bitlen_eq_zero_iff [of "\<lfloor>Y\<rfloor>"] by (cases "0 < \<lfloor>Y\<rfloor>") simp_all
  from bitlen_bounds [OF this] have "2 ^ nat (?b - 1) \<le> \<lfloor>Y\<rfloor>" by simp
  moreover have "nat (?b - 1) = 52 + nat (?b - 53)" using big by simp
  ultimately have "(2::int) ^ (52 + nat (?b - 53)) \<le> \<lfloor>Y\<rfloor>" by simp
  then show ?thesis by (simp add: le_floor_iff)
qed

lemma round_grid_mono:
  assumes "0 \<le> x" and "x \<le> y"
  shows "round_grid k x \<le> round_grid k y"
proof -
  let ?X = "x * 2 ^ k" and ?Y = "y * 2 ^ k"
  let ?s = "nat (bitlen \<lfloor>\<bar>?X\<bar>\<rfloor> - 53)" and ?t = "nat (bitlen \<lfloor>\<bar>?Y\<bar>\<rfloor> - 53)"
  have X0: "0 \<le> ?X" and XY: "?X \<le> ?Y" using assms by (simp_all add: mult_right_mono)
  then have Y0: "0 \<le> ?Y" by linarith
  have absX: "\<bar>?X\<bar> = ?X" and absY: "\<bar>?Y\<bar> = ?Y" using X0 Y0 by simp_all
  have st: "?s \<le> ?t"
    unfolding absX absY using XY by (intro nat_mono diff_right_mono bitlen_mono floor_mono)
  have core: "of_int (round_even (?X / 2 ^ ?s)) * (2::real) ^ ?s
      \<le> of_int (round_even (?Y / 2 ^ ?t)) * 2 ^ ?t"
  proof (cases "?s = ?t")
    case True
    have "?X / 2 ^ ?t \<le> ?Y / 2 ^ ?t" using XY by (simp add: divide_right_mono)
    then have "round_even (?X / 2 ^ ?t) \<le> round_even (?Y / 2 ^ ?t)" by (rule round_even_mono)
    then have "(of_int (round_even (?X / 2 ^ ?t)) :: real) \<le> of_int (round_even (?Y / 2 ^ ?t))"
      by simp
    then show ?thesis unfolding True by (simp add: mult_right_mono)
  next
    case False
    with st have lt: "?s < ?t" by (rule le_neq_implies_less)
    then have tpos: "0 < ?t" by simp
    have "?X < 2 ^ (53 + ?s)" using below_power_bitlen [OF X0] by (simp only: absX)
    then have "?X / 2 ^ ?s < 2 ^ 53" by (simp add: power_add field_simps)
    then have "\<lfloor>?X / 2 ^ ?s\<rfloor> < 2 ^ 53" by (simp add: floor_less_iff)
    with round_even_upper [of "?X / 2 ^ ?s"] have "round_even (?X / 2 ^ ?s) \<le> 2 ^ 53"
      by linarith
    then have "(of_int (round_even (?X / 2 ^ ?s)) :: real) \<le> 2 ^ 53"
      by (metis of_int_le_iff of_int_numeral of_int_power)
    then have left: "of_int (round_even (?X / 2 ^ ?s)) * (2::real) ^ ?s \<le> 2 ^ (53 + ?s)"
      by (simp add: power_add mult_right_mono)
    have "2 ^ (52 + ?t) \<le> ?Y" using above_power_bitlen [of ?Y] tpos by (simp only: absY)
    then have "2 ^ 52 \<le> ?Y / 2 ^ ?t" by (simp add: power_add field_simps)
    then have "(2::int) ^ 52 \<le> \<lfloor>?Y / 2 ^ ?t\<rfloor>" by (simp add: le_floor_iff)
    with round_even_lower [of "?Y / 2 ^ ?t"] have "2 ^ 52 \<le> round_even (?Y / 2 ^ ?t)"
      by linarith
    then have "(2::real) ^ 52 \<le> of_int (round_even (?Y / 2 ^ ?t))"
      by (metis of_int_le_iff of_int_numeral of_int_power)
    then have right: "(2::real) ^ (52 + ?t) \<le> of_int (round_even (?Y / 2 ^ ?t)) * 2 ^ ?t"
      by (simp add: power_add mult_right_mono)
    have "53 + ?s \<le> 52 + ?t" using lt by linarith
    then have "(2::real) ^ (53 + ?s) \<le> 2 ^ (52 + ?t)" by (intro power_increasing) simp_all
    with left right show ?thesis by linarith
  qed
  have "of_int (round_even (?X / 2 ^ ?s)) * (2::real) ^ ?s / 2 ^ k
      \<le> of_int (round_even (?Y / 2 ^ ?t)) * 2 ^ ?t / 2 ^ k"
    using core by (simp add: divide_right_mono)
  then show ?thesis by (simp add: round_grid_def Let_def)
qed

lemma round_grid_nonneg: "0 \<le> x \<Longrightarrow> 0 \<le> round_grid k x"
proof -
  assume "0 \<le> x"
  then have "0 \<le> x * 2 ^ k / 2 ^ nat (bitlen \<lfloor>\<bar>x * 2 ^ k\<bar>\<rfloor> - 53)" by simp
  then have "0 \<le> \<lfloor>x * 2 ^ k / 2 ^ nat (bitlen \<lfloor>\<bar>x * 2 ^ k\<bar>\<rfloor> - 53)\<rfloor>" by simp
  with round_even_lower
  have "0 \<le> round_even (x * 2 ^ k / 2 ^ nat (bitlen \<lfloor>\<bar>x * 2 ^ k\<bar>\<rfloor> - 53))"
    by (rule order_trans [rotated])
  then show ?thesis by (simp add: round_grid_def Let_def)
qed

lemma round_binary64_mono: "0 \<le> x \<Longrightarrow> x \<le> y \<Longrightarrow> round_binary64 x \<le> round_binary64 y"
  by (simp add: round_binary64_def round_grid_mono)

lemma round_binary64_nonneg: "0 \<le> x \<Longrightarrow> 0 \<le> round_binary64 x"
  by (simp add: round_binary64_def round_grid_nonneg)

lemma rnd_nonneg: "0 \<le> x \<Longrightarrow> fle (Finite 0) (rnd x)"
  using round_binary64_nonneg [of x] by (simp add: rnd_def Let_def)

lemma rnd_mono:
  assumes "0 \<le> x" and "x \<le> y"
  shows "fle (rnd x) (rnd y)"
proof -
  have "round_binary64 x \<le> round_binary64 y" using assms by (rule round_binary64_mono)
  moreover have "0 \<le> round_binary64 x" using assms(1) by (rule round_binary64_nonneg)
  ultimately show ?thesis by (simp add: rnd_def Let_def)
qed

lemma nonneg_double:
  assumes "fle (Finite 0) d"
  obtains v where "d = Finite v" and "0 \<le> v" | "d = PosInf"
  using assms by (cases d) simp_all

lemma fmul_nonneg:
  assumes "fle (Finite 0) d" and "0 < u"
  shows "fle (Finite 0) (fmul d (Finite u))"
  using assms(1)
proof (cases rule: nonneg_double)
  case (1 v)
  with assms(2) show ?thesis by (simp add: rnd_nonneg)
next
  case 2
  with assms(2) show ?thesis by simp
qed

lemma fmul_mono:
  assumes "fle (Finite 0) d" and "0 < u" and "u \<le> v"
  shows "fle (fmul d (Finite u)) (fmul d (Finite v))"
  using assms(1)
proof (cases rule: nonneg_double)
  case (1 w)
  with assms(2,3) show ?thesis by (simp add: rnd_mono mult_left_mono)
next
  case 2
  with assms(2,3) show ?thesis by simp
qed

lemma fadd_mono:
  assumes "fle (Finite 0) a" and "fle (Finite 0) y" and "fle y z"
  shows "fle (fadd a y) (fadd a z)"
  using assms(1)
proof (cases rule: nonneg_double)
  case a: (1 u)
  from assms(2) show ?thesis
  proof (cases rule: nonneg_double)
    case y: (1 v)
    show ?thesis
    proof (cases z)
      case (Finite w)
      with a y assms(3) show ?thesis by (simp add: rnd_mono)
    next
      case PosInf
      have "fle (Finite 0) (rnd (u + v))" using a y by (simp add: rnd_nonneg)
      then have "fle (rnd (u + v)) PosInf" by (cases "rnd (u + v)") simp_all
      with a y PosInf show ?thesis by simp
    next
      case NegInf
      with y assms(3) show ?thesis by simp
    next
      case NaN
      with y assms(3) show ?thesis by simp
    qed
  next
    case 2
    with assms(3) have "z = PosInf" by (cases z) simp_all
    with a 2 show ?thesis by simp
  qed
next
  case a: 2
  from assms(2) have y: "fadd PosInf y = PosInf" by (cases rule: nonneg_double) simp_all
  from assms(2,3) have "fle (Finite 0) z" by (cases y; cases z) simp_all
  then have "fadd PosInf z = PosInf" by (cases rule: nonneg_double) simp_all
  with a y show ?thesis by simp
qed

text \<open>Loop indices from 1 to \<open>2^1023\<close> convert to finite doubles, in order.\<close>

lemma float_of_int_finite:
  assumes "1 \<le> i" and "i \<le> 2 ^ 1023"
  shows "float_of_int i = Finite (round_binary64 (of_int i))"
    and "1 \<le> round_binary64 (of_int i)"
proof -
  have one: "round_binary64 1 = 1"
    unfolding round_binary64_def
    using round_grid_normal [of 0 1 1074] by (simp add: round_even_def)
  have top: "round_binary64 (2 ^ 1023) = 2 ^ 1023"
    unfolding round_binary64_def
    using round_grid_normal [of 1023 "2 ^ 1023" 1074] by (simp add: round_even_def)
  have "(of_int i :: real) \<le> 2 ^ 1023"
    using assms(2) by (metis of_int_le_iff of_int_numeral of_int_power)
  then have "round_binary64 (of_int i) \<le> round_binary64 (2 ^ 1023)"
    using assms(1) by (intro round_binary64_mono) simp_all
  then have below: "round_binary64 (of_int i) \<le> 2 ^ 1023" by (simp only: top)
  have "round_binary64 1 \<le> round_binary64 (of_int i)"
    using assms(1) by (intro round_binary64_mono) simp_all
  then show above: "1 \<le> round_binary64 (of_int i)" by (simp only: one)
  have "(2::real) ^ 1023 < 2 ^ 1024" by simp
  with below have "round_binary64 (of_int i) < 2 ^ 1024" by linarith
  with above show "float_of_int i = Finite (round_binary64 (of_int i))"
    by (simp add: float_of_int_def rnd_def Let_def)
qed

lemma offsets_mono:
  assumes "0 \<le> t" and "0 \<le> c" and "1 \<le> i" and "i \<le> j" and "j \<le> 2 ^ 1023"
  shows "fle (fadd (fmul (Finite 0.5) (Finite t)) (fmul (fadd (Finite c) (Finite t)) (float_of_int i)))
             (fadd (fmul (Finite 0.5) (Finite t)) (fmul (fadd (Finite c) (Finite t)) (float_of_int j)))"
proof -
  let ?a = "fmul (Finite 0.5) (Finite t)" and ?d = "fadd (Finite c) (Finite t)"
  let ?u = "round_binary64 (of_int i)" and ?v = "round_binary64 (of_int j)"
  have a: "fle (Finite 0) ?a" using assms(1) by (simp add: rnd_nonneg)
  have d: "fle (Finite 0) ?d" using assms(1,2) by (simp add: rnd_nonneg)
  have i: "float_of_int i = Finite ?u" "1 \<le> ?u"
    using assms(3-5) by (simp_all add: float_of_int_finite)
  have j: "float_of_int j = Finite ?v"
    using assms(3-5) by (simp add: float_of_int_finite)
  have uv: "?u \<le> ?v" using assms(3,4) by (intro round_binary64_mono) simp_all
  have upos: "0 < ?u" using i(2) by linarith
  have "fle (fadd ?a (fmul ?d (Finite ?u))) (fadd ?a (fmul ?d (Finite ?v)))"
    using a fmul_nonneg [OF d upos] fmul_mono [OF d upos uv] by (rule fadd_mono)
  then show ?thesis by (simp only: i(1) j)
qed

lemma offsets_sorted:
  assumes "0 \<le> t" and "0 \<le> c" and "n \<le> 2 ^ 1023"
  shows "sorted_wrt fle
    (map (\<lambda>i. fadd (fmul (Finite 0.5) (Finite t)) (fmul (fadd (Finite c) (Finite t)) (float_of_int i)))
       [1..n])"
proof -
  have "sorted_wrt
      (\<lambda>i j. fle
        (fadd (fmul (Finite 0.5) (Finite t)) (fmul (fadd (Finite c) (Finite t)) (float_of_int i)))
        (fadd (fmul (Finite 0.5) (Finite t)) (fmul (fadd (Finite c) (Finite t)) (float_of_int j))))
      [1..n]"
  proof (rule sorted_wrt_mono_rel [OF _ sorted_wrt_upto])
    fix i j
    assume "i \<in> set [1..n]" and "j \<in> set [1..n]" and "i < j"
    then have "1 \<le> i" and "i \<le> j" and "j \<le> 2 ^ 1023" using assms(3) by simp_all
    with assms(1,2) show "fle
        (fadd (fmul (Finite 0.5) (Finite t)) (fmul (fadd (Finite c) (Finite t)) (float_of_int i)))
        (fadd (fmul (Finite 0.5) (Finite t)) (fmul (fadd (Finite c) (Finite t)) (float_of_int j)))"
      by (rule offsets_mono)
  qed
  then show ?thesis by (simp only: sorted_wrt_map)
qed

subsection \<open>The two placers\<close>

lemma hx_divider_bottom:
  "map hx (divider_bottom p) =
   map (\<lambda>i. fadd (fmul (Finite 0.5) (Finite (thickness p)))
              (fmul (fadd (Finite (deckheight p)) (Finite (thickness p))) (float_of_int i)))
     [1..num p - 1]"
  by (simp add: divider_bottom_def Let_def comp_def)

lemma hx_divider_back_and_front:
  "map hx (divider_back_and_front p) =
   map (\<lambda>i. fadd (fmul (Finite 0.5) (Finite (thickness p)))
              (fmul (fadd (Finite (deckheight p)) (Finite (thickness p))) (float_of_int i)))
     [1..num p - 1]"
  by (simp add: divider_back_and_front_def Let_def comp_def)

lemma holes_divider_bottom:
  "list_all (\<lambda>x. hy x = 0 \<and> hlength x = boxdepth p \<and> hangle x = 90) (divider_bottom p)"
  by (simp add: divider_bottom_def Let_def list_all_iff)

lemma holes_divider_back_and_front:
  "list_all (\<lambda>x. hy x = 0 \<and> hlength x = cardheight p \<and> hangle x = 90)
     (divider_back_and_front p)"
  by (simp add: divider_back_and_front_def Let_def list_all_iff)

text \<open>The offsets in scenario A and for the two further inputs, operation by operation.\<close>

lemma offsets_scenario_A:
  "map hx (divider_bottom scenario_A) =
     [Finite (139 / 2),
      Finite (275 / 2)]"
proof -
  have range: "[1..num scenario_A - 1] = [1, 2]"
    by (simp add: scenario_A_def upto_rec1)
  have t: "thickness scenario_A = 3" and c: "deckheight scenario_A = 65"
    by (simp_all add: scenario_A_def)
  have a: "fmul (Finite 0.5) (Finite 3)
      = Finite (3 / 2)"
    by (simp only: fmul.simps, rule rnd_normalI [where e = 0])
      (simp_all add: round_even_def)
  have d: "fadd (Finite 65) (Finite 3)
      = Finite 68"
    by (simp only: fadd.simps, rule rnd_normalI [where e = 6])
      (simp_all add: round_even_def)
  have i1: "float_of_int 1 = Finite 1"
    by (simp only: float_of_int_def, rule rnd_normalI [where e = 0])
      (simp_all add: round_even_def)
  have m1: "fmul (Finite 68) (Finite 1)
      = Finite 68"
    by (simp only: fmul.simps, rule rnd_normalI [where e = 6])
      (simp_all add: round_even_def)
  have s1: "fadd (Finite (3 / 2)) (Finite 68)
      = Finite (139 / 2)"
    by (simp only: fadd.simps, rule rnd_normalI [where e = 6])
      (simp_all add: round_even_def)
  have i2: "float_of_int 2 = Finite 2"
    by (simp only: float_of_int_def, rule rnd_normalI [where e = 1])
      (simp_all add: round_even_def)
  have m2: "fmul (Finite 68) (Finite 2)
      = Finite 136"
    by (simp only: fmul.simps, rule rnd_normalI [where e = 7])
      (simp_all add: round_even_def)
  have s2: "fadd (Finite (3 / 2)) (Finite 136)
      = Finite (275 / 2)"
    by (simp only: fadd.simps, rule rnd_normalI [where e = 7])
      (simp_all add: round_even_def)
  show ?thesis
    by (simp only: hx_divider_bottom range t c list.map
        a d i1 m1 s1 i2 m2 s2)
qed

lemma offsets_uneven_gaps:
  "map hx (divider_bottom uneven_gaps) =
     [Finite (2274669655542989 / 2 ^ 45),
      Finite (511 / 4),
      Finite (1678734353288397 / 2 ^ 43)]"
proof -
  have range: "[1..num uneven_gaps - 1] = [1, 2, 3]"
    by (simp add: uneven_gaps_def upto_rec1)
  have t: "thickness uneven_gaps = 6980579422424269 / 2 ^ 51" and c: "deckheight uneven_gaps = 60"
    by (simp_all add: uneven_gaps_def)
  have a: "fmul (Finite 0.5) (Finite (6980579422424269 / 2 ^ 51))
      = Finite (6980579422424269 / 2 ^ 52)"
    by (simp only: fmul.simps, rule rnd_normalI [where e = 0])
      (simp_all add: round_even_def)
  have d: "fadd (Finite 60) (Finite (6980579422424269 / 2 ^ 51))
      = Finite (8880535515221197 / 2 ^ 47)"
    by (simp only: fadd.simps, rule rnd_normalI [where e = 5])
      (simp_all add: round_even_def)
  have i1: "float_of_int 1 = Finite 1"
    by (simp only: float_of_int_def, rule rnd_normalI [where e = 0])
      (simp_all add: round_even_def)
  have m1: "fmul (Finite (8880535515221197 / 2 ^ 47)) (Finite 1)
      = Finite (8880535515221197 / 2 ^ 47)"
    by (simp only: fmul.simps, rule rnd_normalI [where e = 5])
      (simp_all add: round_even_def)
  have s1: "fadd (Finite (6980579422424269 / 2 ^ 52)) (Finite (8880535515221197 / 2 ^ 47))
      = Finite (2274669655542989 / 2 ^ 45)"
    by (simp only: fadd.simps, rule rnd_normalI [where e = 6])
      (simp_all add: round_even_def)
  have i2: "float_of_int 2 = Finite 2"
    by (simp only: float_of_int_def, rule rnd_normalI [where e = 1])
      (simp_all add: round_even_def)
  have m2: "fmul (Finite (8880535515221197 / 2 ^ 47)) (Finite 2)
      = Finite (8880535515221197 / 2 ^ 46)"
    by (simp only: fmul.simps, rule rnd_normalI [where e = 6])
      (simp_all add: round_even_def)
  have s2: "fadd (Finite (6980579422424269 / 2 ^ 52)) (Finite (8880535515221197 / 2 ^ 46))
      = Finite (511 / 4)"
    by (simp only: fadd.simps, rule rnd_normalI [where e = 6])
      (simp_all add: round_even_def)
  have i3: "float_of_int 3 = Finite 3"
    by (simp only: float_of_int_def, rule rnd_normalI [where e = 1])
      (simp_all add: round_even_def)
  have m3: "fmul (Finite (8880535515221197 / 2 ^ 47)) (Finite 3)
      = Finite (3330200818207949 / 2 ^ 44)"
    by (simp only: fmul.simps, rule rnd_normalI [where e = 7])
      (simp_all add: round_even_def)
  have s3: "fadd (Finite (6980579422424269 / 2 ^ 52)) (Finite (3330200818207949 / 2 ^ 44))
      = Finite (1678734353288397 / 2 ^ 43)"
    by (simp only: fadd.simps, rule rnd_normalI [where e = 7])
      (simp_all add: round_even_def)
  show ?thesis
    by (simp only: hx_divider_bottom range t c list.map
        a d i1 m1 s1 i2 m2 s2 i3 m3 s3)
qed

lemma offsets_overflowing:
  "map hx (divider_bottom overflowing) =
     [Finite (2 ^ 1023),
      PosInf,
      PosInf]"
proof -
  have range: "[1..num overflowing - 1] = [1, 2, 3]"
    by (simp add: overflowing_def upto_rec1)
  have t: "thickness overflowing = 2" and c: "deckheight overflowing = 2 ^ 1023"
    by (simp_all add: overflowing_def)
  have a: "fmul (Finite 0.5) (Finite 2)
      = Finite 1"
    by (simp only: fmul.simps, rule rnd_normalI [where e = 0])
      (simp_all add: round_even_def)
  have d: "fadd (Finite (2 ^ 1023)) (Finite 2)
      = Finite (2 ^ 1023)"
    by (simp only: fadd.simps, rule rnd_normalI [where e = 1023])
      (simp_all add: round_even_def)
  have i1: "float_of_int 1 = Finite 1"
    by (simp only: float_of_int_def, rule rnd_normalI [where e = 0])
      (simp_all add: round_even_def)
  have m1: "fmul (Finite (2 ^ 1023)) (Finite 1)
      = Finite (2 ^ 1023)"
    by (simp only: fmul.simps, rule rnd_normalI [where e = 1023])
      (simp_all add: round_even_def)
  have s1: "fadd (Finite 1) (Finite (2 ^ 1023))
      = Finite (2 ^ 1023)"
    by (simp only: fadd.simps, rule rnd_normalI [where e = 1023])
      (simp_all add: round_even_def)
  have i2: "float_of_int 2 = Finite 2"
    by (simp only: float_of_int_def, rule rnd_normalI [where e = 1])
      (simp_all add: round_even_def)
  have m2: "fmul (Finite (2 ^ 1023)) (Finite 2)
      = PosInf"
    by (simp only: fmul.simps, rule rnd_overflowI [where e = 1024])
      (simp_all add: round_even_def)
  have s2: "fadd (Finite 1) PosInf = PosInf"
    by simp
  have i3: "float_of_int 3 = Finite 3"
    by (simp only: float_of_int_def, rule rnd_normalI [where e = 1])
      (simp_all add: round_even_def)
  have m3: "fmul (Finite (2 ^ 1023)) (Finite 3)
      = PosInf"
    by (simp only: fmul.simps, rule rnd_overflowI [where e = 1024])
      (simp_all add: round_even_def)
  have s3: "fadd (Finite 1) PosInf = PosInf"
    by simp
  show ?thesis
    by (simp only: hx_divider_bottom range t c list.map
        a d i1 m1 s1 i2 m2 s2 i3 m3 s3)
qed

text \<open>
  Claim C2, as amended. For \<open>1 \<le> num \<le> 2^1023\<close> and positive \<open>deckheight\<close> and
  \<open>thickness\<close>, \<open>divider_bottom\<close> and \<open>divider_back_and_front\<close> each register exactly
  \<open>num - 1\<close> holes, both at the offsets \<open>0.5 * thickness + (deckheight + thickness) * i\<close>
  for \<open>i = 1, ..., num - 1\<close>, each operation rounded to the nearest double. The
  offsets never decrease. Every hole is at \<open>y = 0\<close> with angle 90, of length
  \<open>boxdepth\<close> on the bottom and \<open>cardheight\<close> on the back and front. In scenario A the
  offsets are exactly 69.5 and 137.5.
\<close>

theorem divider_holes_rounded:
  assumes "1 \<le> num p" and "num p \<le> 2 ^ 1023"
    and "0 < deckheight p" and "0 < thickness p"
  shows "int (length (divider_bottom p)) = num p - 1
    \<and> int (length (divider_back_and_front p)) = num p - 1
    \<and> map hx (divider_bottom p) =
        map (\<lambda>i. fadd (fmul (Finite 0.5) (Finite (thickness p)))
                   (fmul (fadd (Finite (deckheight p)) (Finite (thickness p)))
                      (float_of_int i)))
          [1..num p - 1]
    \<and> map hx (divider_back_and_front p) = map hx (divider_bottom p)
    \<and> sorted_wrt fle (map hx (divider_bottom p))
    \<and> list_all (\<lambda>x. hy x = 0 \<and> hlength x = boxdepth p \<and> hangle x = 90) (divider_bottom p)
    \<and> list_all (\<lambda>x. hy x = 0 \<and> hlength x = cardheight p \<and> hangle x = 90)
          (divider_back_and_front p)
    \<and> map hx (divider_bottom scenario_A) = [Finite 69.5, Finite 137.5]"
proof -
  have count1: "int (length (divider_bottom p)) = num p - 1"
    using assms(1) by (simp add: divider_bottom_def Let_def)
  have count2: "int (length (divider_back_and_front p)) = num p - 1"
    using assms(1) by (simp add: divider_back_and_front_def Let_def)
  have same: "map hx (divider_back_and_front p) = map hx (divider_bottom p)"
    by (simp only: hx_divider_bottom hx_divider_back_and_front)
  have "0 \<le> thickness p" and "0 \<le> deckheight p" and "num p - 1 \<le> 2 ^ 1023"
    using assms(2-4) by simp_all
  then have ordered: "sorted_wrt fle (map hx (divider_bottom p))"
    by (simp only: hx_divider_bottom offsets_sorted)
  have scenario: "map hx (divider_bottom scenario_A) = [Finite 69.5, Finite 137.5]"
    by (simp only: offsets_scenario_A) simp
  from count1 count2 hx_divider_bottom same ordered
    holes_divider_bottom holes_divider_back_and_front scenario
  show ?thesis by blast
qed

theorem divider_holes_rounded_witness:
  "1 \<le> num scenario_A \<and> num scenario_A \<le> 2 ^ 1023
   \<and> 0 < deckheight scenario_A \<and> 0 < thickness scenario_A
   \<and> length (divider_bottom scenario_A) = 2
   \<and> length (divider_back_and_front scenario_A) = 2
   \<and> map hx (divider_back_and_front scenario_A) = [Finite 69.5, Finite 137.5]
   \<and> sorted_wrt fle [Finite 69.5, Finite 137.5]
   \<and> map hlength (divider_bottom scenario_A) = [74, 74]
   \<and> map hlength (divider_back_and_front scenario_A) = [92, 92]"
proof -
  have pre: "1 \<le> num scenario_A" "num scenario_A \<le> 2 ^ 1023"
    "0 < deckheight scenario_A" "0 < thickness scenario_A"
    by (simp_all add: scenario_A_def)
  have vals: "num scenario_A = 3" "boxdepth scenario_A = 74" "cardheight scenario_A = 92"
    by (simp_all add: scenario_A_def boxdepth_def)
  from divider_holes_rounded [OF pre] have
    n1: "int (length (divider_bottom scenario_A)) = num scenario_A - 1" and
    n2: "int (length (divider_back_and_front scenario_A)) = num scenario_A - 1" and
    same: "map hx (divider_back_and_front scenario_A) = map hx (divider_bottom scenario_A)" and
    ordered: "sorted_wrt fle (map hx (divider_bottom scenario_A))" and
    b: "list_all (\<lambda>x. hy x = 0 \<and> hlength x = boxdepth scenario_A \<and> hangle x = 90)
          (divider_bottom scenario_A)" and
    f: "list_all (\<lambda>x. hy x = 0 \<and> hlength x = cardheight scenario_A \<and> hangle x = 90)
          (divider_back_and_front scenario_A)" and
    xs: "map hx (divider_bottom scenario_A) = [Finite 69.5, Finite 137.5]"
    by blast+
  have l1: "length (divider_bottom scenario_A) = 2" using n1 vals by simp
  have l2: "length (divider_back_and_front scenario_A) = 2" using n2 vals by simp
  have o: "sorted_wrt fle [Finite 69.5, Finite 137.5]" using ordered by (simp only: xs)
  have hb: "map hlength (divider_bottom scenario_A) = [74, 74]"
    using b l1 vals by (cases "divider_bottom scenario_A"; simp) (case_tac list; simp)
  have hf: "map hlength (divider_back_and_front scenario_A) = [92, 92]"
    using f l2 vals by (cases "divider_back_and_front scenario_A"; simp) (case_tac list; simp)
  from pre l1 l2 same xs o hb hf show ?thesis by simp
qed

text \<open>
  The claim as written, with exactly uniform spacing and strict increase, fails on
  doubles. For \<open>deckheight = 60\<close>, \<open>thickness = 3.1\<close> and \<open>num = 4\<close> the offsets are
  64.65, 127.75 and 190.85000000000002 (the doubles nearest to these decimals): the
  two gaps differ from each other and from \<open>deckheight + thickness\<close>, exact or rounded.
  For \<open>deckheight = 2^1023\<close>, \<open>thickness = 2\<close> and \<open>num = 4\<close> the second and the third
  offset are both infinite, so the offsets do not increase strictly.
\<close>

theorem divider_gaps_not_uniform:
  "1 \<le> num uneven_gaps \<and> 0 < deckheight uneven_gaps \<and> 0 < thickness uneven_gaps
   \<and> rnd 3.1 = Finite (thickness uneven_gaps)
   \<and> map hx (divider_bottom uneven_gaps) =
       [Finite (2274669655542989 / 2 ^ 45), Finite (511 / 4), Finite (1678734353288397 / 2 ^ 43)]
   \<and> rnd 64.65 = Finite (2274669655542989 / 2 ^ 45)
   \<and> rnd 190.85000000000002 = Finite (1678734353288397 / 2 ^ 43)
   \<and> (511 / 4 - 2274669655542989 / 2 ^ 45 :: real) \<noteq> 1678734353288397 / 2 ^ 43 - 511 / 4
   \<and> 511 / 4 - 2274669655542989 / 2 ^ 45 \<noteq> deckheight uneven_gaps + thickness uneven_gaps
   \<and> 1678734353288397 / 2 ^ 43 - 511 / 4 \<noteq> deckheight uneven_gaps + thickness uneven_gaps
   \<and> fadd (Finite (deckheight uneven_gaps)) (Finite (thickness uneven_gaps)) =
       Finite (8880535515221197 / 2 ^ 47)
   \<and> (511 / 4 - 2274669655542989 / 2 ^ 45 :: real) \<noteq> 8880535515221197 / 2 ^ 47
   \<and> (1678734353288397 / 2 ^ 43 - 511 / 4 :: real) \<noteq> 8880535515221197 / 2 ^ 47
   \<and> 1 \<le> num overflowing \<and> 0 < deckheight overflowing \<and> 0 < thickness overflowing
   \<and> map hx (divider_bottom overflowing) = [Finite (2 ^ 1023), PosInf, PosInf]
   \<and> \<not> sorted_wrt flt (map hx (divider_bottom overflowing))"
proof -
  have domain: "1 \<le> num uneven_gaps" "0 < deckheight uneven_gaps" "0 < thickness uneven_gaps"
    "1 \<le> num overflowing" "0 < deckheight overflowing" "0 < thickness overflowing"
    by (simp_all add: uneven_gaps_def overflowing_def)
  have t: "rnd 3.1 = Finite (thickness uneven_gaps)"
    by (rule rnd_normalI [where e = 1]) (simp_all add: round_even_def uneven_gaps_def)
  have first: "rnd 64.65 = Finite (2274669655542989 / 2 ^ 45)"
    by (rule rnd_normalI [where e = 6]) (simp_all add: round_even_def)
  have third: "rnd 190.85000000000002 = Finite (1678734353288397 / 2 ^ 43)"
    by (rule rnd_normalI [where e = 7]) (simp_all add: round_even_def)
  have gaps: "(511 / 4 - 2274669655542989 / 2 ^ 45 :: real) \<noteq> 1678734353288397 / 2 ^ 43 - 511 / 4"
    "511 / 4 - 2274669655542989 / 2 ^ 45 \<noteq> deckheight uneven_gaps + thickness uneven_gaps"
    "1678734353288397 / 2 ^ 43 - 511 / 4 \<noteq> deckheight uneven_gaps + thickness uneven_gaps"
    "(511 / 4 - 2274669655542989 / 2 ^ 45 :: real) \<noteq> 8880535515221197 / 2 ^ 47"
    "(1678734353288397 / 2 ^ 43 - 511 / 4 :: real) \<noteq> 8880535515221197 / 2 ^ 47"
    by (simp_all add: uneven_gaps_def)
  have step: "fadd (Finite (deckheight uneven_gaps)) (Finite (thickness uneven_gaps)) =
       Finite (8880535515221197 / 2 ^ 47)"
    by (simp only: fadd.simps, rule rnd_normalI [where e = 5])
      (simp_all add: round_even_def uneven_gaps_def)
  have strict: "\<not> sorted_wrt flt (map hx (divider_bottom overflowing))"
    by (simp only: offsets_overflowing) simp
  from domain t offsets_uneven_gaps first third gaps step offsets_overflowing strict
  show ?thesis by simp
qed

section \<open>Edge profiles\<close>

lemma rad_turns:
  "rad (d + 90) = rad d + pi / 2"
  "rad (d - 90) = rad d - pi / 2"
  by (simp_all add: rad_def field_simps)

text \<open>
  Claim C3. For every edge length \<open>l\<close> and every thickness \<open>t\<close>, \<open>InsetEdge\<close> emits
  exactly: turn 90, advance \<open>t\<close>, turn -90, advance \<open>l\<close>, turn -90, advance \<open>t\<close>,
  turn 90. Every advance carries the tab marker (\<open>tabs=2\<close>); the turning angles sum
  to zero; and, from any pose, the path ends in the pose a straight edge of length
  \<open>l\<close> ends in: the heading is restored and the position is \<open>l\<close> further along it.
\<close>

theorem inset_edge_profile:
  "\<exists>path. InsetEdge_call s l = Inr path
     \<and> path = [Corner 90 0, Edge (inset_thickness s) 2, Corner (- 90) 0, Edge l 2,
               Corner (- 90) 0, Edge (inset_thickness s) 2, Corner 90 0]
     \<and> advances path = [(inset_thickness s, 2), (l, 2), (inset_thickness s, 2)]
     \<and> net_turn path = 0
     \<and> run_path path \<lparr>px = x, py = y, heading = d\<rparr>
         = \<lparr>px = x + l * cos (rad d), py = y + l * sin (rad d), heading = d\<rparr>
     \<and> run_path path \<lparr>px = x, py = y, heading = d\<rparr>
         = run_path [Edge l 0] \<lparr>px = x, py = y, heading = d\<rparr>"
  by (simp add: InsetEdge_call_def Let_def rad_turns sin_add cos_add sin_diff cos_diff)

text \<open>
  Claim C4. For every edge length \<open>l\<close> and wall height \<open>wallheight\<close>,
  \<open>FingerHoleEdge\<close> emits exactly: advance \<open>l/2 - 10\<close>, turn 90, advance
  \<open>wallheight/5\<close>, turn -180 with radius 10, advance \<open>wallheight/5\<close>, turn 90,
  advance \<open>l/2 - 10\<close>. The two outer advances are equal and the two depth advances
  are equal; the path read backwards is the same path, which is its mirror symmetry.
  Drawn from the origin along the x axis, the notch opens at \<open>x = l/2 - 10\<close> and
  closes at \<open>x = l/2 + 10\<close>, both at depth \<open>wallheight/5\<close>: it is centred on \<open>l/2\<close>.
\<close>

theorem finger_hole_edge_profile:
  "\<exists>path. FingerHoleEdge_call s l = Inr path
     \<and> path = [Edge (l / 2 - 10) 2, Corner 90 0, Edge (wallheight s / 5) 2,
               Corner (- 180) 10,
               Edge (wallheight s / 5) 2, Corner 90 0, Edge (l / 2 - 10) 2]
     \<and> advances path =
         [(l / 2 - 10, 2), (wallheight s / 5, 2), (wallheight s / 5, 2), (l / 2 - 10, 2)]
     \<and> rev path = path
     \<and> run_path (take 3 path) \<lparr>px = 0, py = 0, heading = 0\<rparr>
         = \<lparr>px = l / 2 - 10, py = wallheight s / 5, heading = 90\<rparr>
     \<and> run_path (take 4 path) \<lparr>px = 0, py = 0, heading = 0\<rparr>
         = \<lparr>px = l / 2 + 10, py = wallheight s / 5, heading = - 90\<rparr>"
  by (simp add: FingerHoleEdge_call_def Let_def rad_def)

text \<open>
  Claim C10. For every edge length \<open>l\<close> and wall height, the turning angles of the
  \<open>FingerHoleEdge\<close> path sum to zero, as those of the \<open>InsetEdge\<close> path do, and from
  any pose the path ends \<open>l\<close> further along the original heading, with the heading
  restored. The arc (turn -180, radius 10), entered at a right angle to the edge,
  contributes an advance of 20 along the edge, and \<open>(l/2 - 10) + 20 + (l/2 - 10) = l\<close>.
\<close>

theorem finger_hole_edge_displacement:
  "\<exists>path ipath. FingerHoleEdge_call s l = Inr path
     \<and> InsetEdge_call s' l = Inr ipath
     \<and> net_turn path = 0
     \<and> net_turn ipath = 0
     \<and> run_path path \<lparr>px = x, py = y, heading = d\<rparr>
         = \<lparr>px = x + l * cos (rad d), py = y + l * sin (rad d), heading = d\<rparr>
     \<and> run_path path \<lparr>px = x, py = y, heading = d\<rparr>
         = run_path [Edge l 0] \<lparr>px = x, py = y, heading = d\<rparr>
     \<and> step (Corner (- 180) 10) \<lparr>px = x, py = y, heading = d + 90\<rparr>
         = \<lparr>px = x + 20 * cos (rad d), py = y + 20 * sin (rad d), heading = d - 90\<rparr>
     \<and> (l / 2 - 10) + 2 * 10 + (l / 2 - 10) = l"
  by (simp add: FingerHoleEdge_call_def InsetEdge_call_def Let_def rad_turns
      sin_add cos_add sin_diff cos_diff algebra_simps)

text \<open>
  Claim C5, as amended. \<open>FingerHoleEdge\<close> checks nothing: for every edge length,
  also one of at most 20, it returns normally with its seven-step path and raises
  no \<open>GeometryUnderflow\<close>. The outer advances \<open>l/2 - 10\<close> are positive exactly when
  \<open>l > 20\<close>; they are zero at 20 and negative below.
\<close>

theorem finger_hole_edge_no_length_check:
  "FingerHoleEdge_call s l \<noteq> Inl e
   \<and> (\<exists>path. FingerHoleEdge_call s l = Inr path
        \<and> map fst (advances path) = [l / 2 - 10, wallheight s / 5, wallheight s / 5, l / 2 - 10])
   \<and> (0 < l / 2 - 10) = (20 < l)
   \<and> (l / 2 - 10 = 0) = (l = 20)"
  by (auto simp add: FingerHoleEdge_call_def Let_def)

text \<open>
  The claim as written fails at length 20 (wall height 92, thickness 3): the call
  returns the path, with outer advances of length 0.
\<close>

theorem finger_hole_edge_length_20:
  "(20::real) \<le> 20
   \<and> FingerHoleEdge_call \<lparr>fh_thickness = 3, wallheight = 92\<rparr> 20 \<noteq> Inl GeometryUnderflow
   \<and> FingerHoleEdge_call \<lparr>fh_thickness = 3, wallheight = 92\<rparr> 20 =
       Inr [Edge 0 2, Corner 90 0, Edge (92 / 5) 2, Corner (- 180) 10,
            Edge (92 / 5) 2, Corner 90 0, Edge 0 2]"
  by (simp add: FingerHoleEdge_call_def Let_def)

section \<open>The panel sequence\<close>

lemma walls_append: "walls (xs @ ys) = walls xs @ walls ys"
  by (induction xs rule: walls.induct) simp_all

lemma walls_loop: "walls (map (\<lambda>i. RectangularWall w) is) = replicate (length is) w"
  by (induction "is") simp_all

lemma walls_loop2:
  "walls (concat (map (\<lambda>i. [RectangularWall a, RectangularWall b]) is))
   = concat (replicate (length is) [a, b])"
  by (induction "is") simp_all

lemma registered_append: "registered (xs @ ys) = registered xs @ registered ys"
  by (induction xs rule: registered.induct) simp_all

lemma registered_loop: "registered (map (\<lambda>i. RectangularWall w) is) = []"
  by (induction "is") simp_all

lemma registered_loop2:
  "registered (concat (map (\<lambda>i. [RectangularWall a, RectangularWall b]) is)) = []"
  by (induction "is") simp_all

lemma filter_pairs:
  "filter P (concat (replicate n [a, b])) = concat (replicate n (filter P [a, b]))"
  by (induction n) simp_all

lemma length_pairs: "length (concat (replicate n [a, b])) = 2 * n"
  by (induction n) simp_all

lemma map_pairs: "map f (concat (replicate n [a, b])) = concat (replicate n [f a, f b])"
  by (induction n) simp_all

lemma concat_replicate_Nil: "concat (replicate n []) = []"
  by (induction n) simp_all

lemma concat_replicate_single: "concat (replicate n [a]) = replicate n a"
  by (induction n) simp_all

lemma drawn_moves:
  "drawn \<lparr>wx = x, wy = y, edges = es, callback = cb, move = ''right'', label = l\<rparr>"
  "drawn \<lparr>wx = x, wy = y, edges = es, callback = cb, move = ''up'', label = l\<rparr>"
  "\<not> drawn \<lparr>wx = x, wy = y, edges = es, callback = cb, move = ''up only'', label = l\<rparr>"
  by (simp_all add: drawn_def)

text \<open>The parts a run registers, the panels it draws and the places it only reserves,
  for every parameter record.\<close>

lemma parts_render:
  "parts (render p) =
     [(CHR ''a'', InsetEdge \<lparr>inset_thickness = thickness p\<rparr>),
      (CHR ''A'', FingerHoleEdge \<lparr>fh_thickness = thickness p, wallheight = cardheight p\<rparr>)]"
  by (simp add: parts_def render_def Let_def rectangularWall_def h_def registered_append
      registered_loop registered_loop2)

lemma panels_render:
  "panels (render p) =
    [\<lparr>wx = boxwidth p, wy = boxdepth p - thickness p * 0.2, edges = ''eFee'', callback = [],
        move = ''right'', label = ''Lid''\<rparr>,
     \<lparr>wx = boxwidth p, wy = boxdepth p, edges = ''ffff'', callback = [Divider_bottom],
        move = ''right'', label = ''Bottom''\<rparr>,
     \<lparr>wx = boxwidth p, wy = thickness p, edges = ''feee'', callback = [],
        move = ''up'', label = ''Lip Front''\<rparr>,
     \<lparr>wx = boxwidth p, wy = thickness p, edges = ''eefe'', callback = [],
        move = ''up'', label = ''Lip Back''\<rparr>,
     \<lparr>wx = boxwidth p, wy = cardheight p + thickness p, edges = ''FfFf'',
        callback = [Divider_back_and_front], move = ''right'', label = ''Back''\<rparr>,
     \<lparr>wx = boxwidth p, wy = cardheight p + thickness p, edges = ''FfFf'',
        callback = [Divider_back_and_front], move = ''right'', label = ''Front''\<rparr>,
     \<lparr>wx = boxdepth p, wy = cardheight p + thickness p, edges = ''FFEF'', callback = [],
        move = ''right'', label = ''Outer Side Left''\<rparr>,
     \<lparr>wx = boxdepth p, wy = cardheight p + thickness p, edges = ''FFaF'', callback = [],
        move = ''right'', label = ''Outer Side Right''\<rparr>,
     \<lparr>wx = boxdepth p, wy = cardheight p, edges = ''Aeee'', callback = [],
        move = ''right'', label = ''Inner Side Left''\<rparr>,
     \<lparr>wx = boxdepth p, wy = cardheight p, edges = ''Aeee'', callback = [],
        move = ''right'', label = ''Inner Side Right''\<rparr>,
     \<lparr>wx = boxdepth p - thickness p * 0.2, wy = thickness p, edges = ''fEeE'', callback = [],
        move = ''right'', label = ''Lid Lip''\<rparr>]
    @ replicate (nat (num p - 1))
        \<lparr>wx = cardheight p, wy = boxdepth p, edges = ''fAff'', callback = [],
          move = ''right'', label = ''Divider''\<rparr>
    @ concat (replicate (nat (num p))
        [\<lparr>wx = deckheight p, wy = cardheight p, edges = ''eeee'', callback = [],
           move = ''right'', label = ''Front inlay''\<rparr>,
         \<lparr>wx = deckheight p, wy = cardheight p, edges = ''eeee'', callback = [],
           move = ''right'', label = ''Back inlay''\<rparr>])
    @ [\<lparr>wx = boxwidth p, wy = boxdepth p - 2 * thickness p, edges = ''eeee'', callback = [],
         move = ''right'', label = ''Lid topper''\<rparr>]"
  by (simp add: panels_def render_def Let_def rectangularWall_def h_def walls_append walls_loop
      walls_loop2 filter_pairs drawn_moves)

lemma placeholders_render:
  "placeholders (render p) =
    [\<lparr>wx = boxwidth p, wy = boxdepth p, edges = ''eEEE'', callback = [],
        move = ''up only'', label = ''''\<rparr>,
     \<lparr>wx = boxwidth p, wy = cardheight p + thickness p, edges = ''EEEE'', callback = [],
        move = ''up only'', label = ''''\<rparr>,
     \<lparr>wx = boxdepth p, wy = cardheight p + thickness p, edges = ''fFfF'', callback = [],
        move = ''up only'', label = ''''\<rparr>,
     \<lparr>wx = boxdepth p, wy = cardheight p, edges = ''eAee'', callback = [],
        move = ''up only'', label = ''''\<rparr>,
     \<lparr>wx = boxdepth p, wy = thickness p * 2, edges = ''efee'', callback = [],
        move = ''up only'', label = ''''\<rparr>]"
  by (simp add: placeholders_def render_def Let_def rectangularWall_def h_def walls_append
      walls_loop walls_loop2 filter_pairs drawn_moves)

lemma labels_render:
  "map label (panels (render p)) =
     [''Lid'', ''Bottom'', ''Lip Front'', ''Lip Back'', ''Back'', ''Front'',
      ''Outer Side Left'', ''Outer Side Right'', ''Inner Side Left'', ''Inner Side Right'',
      ''Lid Lip'']
     @ replicate (nat (num p - 1)) ''Divider''
     @ concat (replicate (nat (num p)) [''Front inlay'', ''Back inlay''])
     @ [''Lid topper'']"
  by (simp add: panels_render map_pairs)

lemma length_panels_render:
  "length (panels (render p)) = 12 + nat (num p - 1) + 2 * nat (num p)"
  by (simp add: panels_render length_pairs)

lemma dividers_render:
  "labelled ''Divider'' (panels (render p)) =
     replicate (nat (num p - 1))
       \<lparr>wx = cardheight p, wy = boxdepth p, edges = ''fAff'', callback = [],
         move = ''right'', label = ''Divider''\<rparr>"
  by (simp add: labelled_def panels_render filter_pairs concat_replicate_Nil)

lemma front_inlays_render:
  "labelled ''Front inlay'' (panels (render p)) =
     replicate (nat (num p))
       \<lparr>wx = deckheight p, wy = cardheight p, edges = ''eeee'', callback = [],
         move = ''right'', label = ''Front inlay''\<rparr>"
  by (simp add: labelled_def panels_render filter_pairs concat_replicate_single)

lemma back_inlays_render:
  "labelled ''Back inlay'' (panels (render p)) =
     replicate (nat (num p))
       \<lparr>wx = deckheight p, wy = cardheight p, edges = ''eeee'', callback = [],
         move = ''right'', label = ''Back inlay''\<rparr>"
  by (simp add: labelled_def panels_render filter_pairs concat_replicate_single)

lemma lid_lip_render:
  "labelled ''Lid Lip'' (panels (render p)) =
     [\<lparr>wx = boxdepth p - thickness p * 0.2, wy = thickness p, edges = ''fEeE'', callback = [],
        move = ''right'', label = ''Lid Lip''\<rparr>]"
  by (simp add: labelled_def panels_render filter_pairs concat_replicate_Nil)

text \<open>
  Claim C6, as amended. \<open>render\<close> validates nothing: for every parameter record,
  also one with \<open>thickness\<close>, \<open>deckheight\<close>, \<open>cardwidth\<close> or \<open>cardheight\<close> at most 0 or
  \<open>num < 1\<close>, it returns normally, raising no \<open>InvalidParameter\<close> (nor any other
  error), after registering the two edge parts and emitting its panels, the first of
  which is the Lid and the last the Lid topper: at least the twelve fixed panels are
  emitted.
\<close>

theorem render_no_validation:
  "render p \<noteq> Inl e
   \<and> map fst (parts (render p)) = [CHR ''a'', CHR ''A'']
   \<and> take 11 (map label (panels (render p))) =
       [''Lid'', ''Bottom'', ''Lip Front'', ''Lip Back'', ''Back'', ''Front'',
        ''Outer Side Left'', ''Outer Side Right'', ''Inner Side Left'', ''Inner Side Right'',
        ''Lid Lip'']
   \<and> last (map label (panels (render p))) = ''Lid topper''
   \<and> 12 \<le> length (panels (render p))"
proof -
  have "render p \<noteq> Inl e" by (simp add: render_def Let_def)
  moreover have "map fst (parts (render p)) = [CHR ''a'', CHR ''A'']"
    by (simp add: parts_render)
  moreover have "take 11 (map label (panels (render p))) =
       [''Lid'', ''Bottom'', ''Lip Front'', ''Lip Back'', ''Back'', ''Front'',
        ''Outer Side Left'', ''Outer Side Right'', ''Inner Side Left'', ''Inner Side Right'',
        ''Lid Lip'']"
    by (simp only: labels_render) simp
  moreover have "last (map label (panels (render p))) = ''Lid topper''"
    by (simp only: labels_render) simp
  moreover have "12 \<le> length (panels (render p))"
    by (simp add: length_panels_render)
  ultimately show ?thesis by blast
qed

text \<open>
  The claim as written fails for the default parameters with \<open>num = 0\<close>: the run
  does not fail, and it emits the twelve fixed panels.
\<close>

theorem render_zero_compartments:
  "num zero_compartments < 1
   \<and> render zero_compartments \<noteq> Inl InvalidParameter
   \<and> map label (panels (render zero_compartments)) =
       [''Lid'', ''Bottom'', ''Lip Front'', ''Lip Back'', ''Back'', ''Front'',
        ''Outer Side Left'', ''Outer Side Right'', ''Inner Side Left'', ''Inner Side Right'',
        ''Lid Lip'', ''Lid topper'']"
proof -
  have "num zero_compartments < 1" by (simp add: zero_compartments_def)
  moreover have "render zero_compartments \<noteq> Inl InvalidParameter"
    by (simp add: render_def Let_def)
  moreover have "map label (panels (render zero_compartments)) =
       [''Lid'', ''Bottom'', ''Lip Front'', ''Lip Back'', ''Back'', ''Front'',
        ''Outer Side Left'', ''Outer Side Right'', ''Inner Side Left'', ''Inner Side Right'',
        ''Lid Lip'', ''Lid topper'']"
    by (simp add: labels_render zero_compartments_def)
  ultimately show ?thesis by blast
qed

text \<open>
  Claim C7, as amended. For \<open>num \<ge> 1\<close> a run emits exactly 12 fixed panels (Lid,
  Bottom, Lip Front, Lip Back, Back, Front, Outer Side Left and Right, Inner Side Left
  and Right, Lid Lip, Lid topper), \<open>num - 1\<close> Divider panels and \<open>2 * num\<close> inlay
  panels (\<open>num\<close> Front inlays and \<open>num\<close> Back inlays), in this order, and reserves
  5 places without drawing. For \<open>num = 1\<close> (scenario B) no Divider and exactly one
  Front inlay and one Back inlay are emitted.
\<close>

theorem panel_count:
  assumes "1 \<le> num p"
  shows "int (length (panels (render p))) = 12 + (num p - 1) + 2 * num p
    \<and> map label (panels (render p)) =
        [''Lid'', ''Bottom'', ''Lip Front'', ''Lip Back'', ''Back'', ''Front'',
         ''Outer Side Left'', ''Outer Side Right'', ''Inner Side Left'', ''Inner Side Right'',
         ''Lid Lip'']
        @ replicate (nat (num p - 1)) ''Divider''
        @ concat (replicate (nat (num p)) [''Front inlay'', ''Back inlay''])
        @ [''Lid topper'']
    \<and> int (length (labelled ''Divider'' (panels (render p)))) = num p - 1
    \<and> int (length (labelled ''Front inlay'' (panels (render p)))) = num p
    \<and> int (length (labelled ''Back inlay'' (panels (render p)))) = num p
    \<and> length (placeholders (render p)) = 5
    \<and> map label (panels (render scenario_B)) =
        [''Lid'', ''Bottom'', ''Lip Front'', ''Lip Back'', ''Back'', ''Front'',
         ''Outer Side Left'', ''Outer Side Right'', ''Inner Side Left'', ''Inner Side Right'',
         ''Lid Lip'', ''Front inlay'', ''Back inlay'', ''Lid topper'']"
proof -
  have total: "int (length (panels (render p))) = 12 + (num p - 1) + 2 * num p"
    using assms by (simp add: length_panels_render)
  have dividers: "int (length (labelled ''Divider'' (panels (render p)))) = num p - 1"
    using assms by (simp add: dividers_render)
  have fronts: "int (length (labelled ''Front inlay'' (panels (render p)))) = num p"
    using assms by (simp add: front_inlays_render)
  have backs: "int (length (labelled ''Back inlay'' (panels (render p)))) = num p"
    using assms by (simp add: back_inlays_render)
  have reserved: "length (placeholders (render p)) = 5"
    by (simp add: placeholders_render)
  have single: "map label (panels (render scenario_B)) =
        [''Lid'', ''Bottom'', ''Lip Front'', ''Lip Back'', ''Back'', ''Front'',
         ''Outer Side Left'', ''Outer Side Right'', ''Inner Side Left'', ''Inner Side Right'',
         ''Lid Lip'', ''Front inlay'', ''Back inlay'', ''Lid topper'']"
    by (simp add: labels_render scenario_B_def)
  from total labels_render dividers fronts backs reserved single show ?thesis by blast
qed

theorem panel_count_witness:
  "1 \<le> num scenario_B
   \<and> length (panels (render scenario_B)) = 14
   \<and> length (labelled ''Divider'' (panels (render scenario_B))) = 0
   \<and> length (labelled ''Front inlay'' (panels (render scenario_B))) = 1
   \<and> length (labelled ''Back inlay'' (panels (render scenario_B))) = 1
   \<and> length (placeholders (render scenario_B)) = 5"
proof -
  have pre: "1 \<le> num scenario_B" by (simp add: scenario_B_def)
  have n: "num scenario_B = 1" by (simp add: scenario_B_def)
  from panel_count [OF pre] have
    total: "int (length (panels (render scenario_B))) =
      12 + (num scenario_B - 1) + 2 * num scenario_B" and
    dividers: "int (length (labelled ''Divider'' (panels (render scenario_B)))) =
      num scenario_B - 1" and
    fronts: "int (length (labelled ''Front inlay'' (panels (render scenario_B)))) =
      num scenario_B" and
    backs: "int (length (labelled ''Back inlay'' (panels (render scenario_B)))) =
      num scenario_B" and
    reserved: "length (placeholders (render scenario_B)) = 5"
    by blast+
  from pre total dividers fronts backs reserved show ?thesis
    by (simp add: n)
qed

text \<open>
  The claim as written, with 13 fixed panels, fails in scenario B: 14 panels are
  emitted, not \<open>13 + 0 + 2 = 15\<close>.
\<close>

theorem panel_count_not_13:
  "1 \<le> num scenario_B
   \<and> int (length (panels (render scenario_B))) \<noteq> 13 + (num scenario_B - 1) + 2 * num scenario_B
   \<and> length (panels (render scenario_B)) = 14"
  by (simp add: length_panels_render scenario_B_def)

text \<open>
  Claim C8, as amended. For \<open>num \<ge> 1\<close> a run emits exactly \<open>num - 1\<close> Divider
  panels, each sized \<open>(cardheight, boxdepth)\<close> with the edge code \<open>fAff\<close>. Its custom
  symbol, on the second edge, is \<open>A\<close>, which the run registers for the finger-hole
  edge (wall height \<open>cardheight\<close>); the inset-rail symbol \<open>a\<close> does not occur in it.
\<close>

theorem divider_panels:
  assumes "1 \<le> num p"
  shows "int (length (labelled ''Divider'' (panels (render p)))) = num p - 1
    \<and> list_all (\<lambda>w. wx w = cardheight p \<and> wy w = boxdepth p \<and> edges w = ''fAff'')
         (labelled ''Divider'' (panels (render p)))
    \<and> ''fAff'' ! 1 = CHR ''A''
    \<and> map_of (parts (render p)) CHR ''A'' =
         Some (FingerHoleEdge \<lparr>fh_thickness = thickness p, wallheight = cardheight p\<rparr>)
    \<and> map_of (parts (render p)) CHR ''a'' =
         Some (InsetEdge \<lparr>inset_thickness = thickness p\<rparr>)
    \<and> CHR ''a'' \<notin> set ''fAff''"
proof -
  have count: "int (length (labelled ''Divider'' (panels (render p)))) = num p - 1"
    using assms by (simp add: dividers_render)
  have each: "list_all (\<lambda>w. wx w = cardheight p \<and> wy w = boxdepth p \<and> edges w = ''fAff'')
         (labelled ''Divider'' (panels (render p)))"
    by (simp add: dividers_render list_all_iff)
  have finger: "map_of (parts (render p)) CHR ''A'' =
         Some (FingerHoleEdge \<lparr>fh_thickness = thickness p, wallheight = cardheight p\<rparr>)"
    by (simp add: parts_render)
  have inset: "map_of (parts (render p)) CHR ''a'' =
         Some (InsetEdge \<lparr>inset_thickness = thickness p\<rparr>)"
    by (simp add: parts_render)
  have code: "''fAff'' ! 1 = CHR ''A''" "CHR ''a'' \<notin> set ''fAff''"
    by simp_all
  from count each code finger inset show ?thesis by blast
qed

theorem divider_panels_witness:
  "1 \<le> num scenario_A
   \<and> length (labelled ''Divider'' (panels (render scenario_A))) = 2
   \<and> map_of (parts (render scenario_A)) CHR ''A'' =
       Some (FingerHoleEdge \<lparr>fh_thickness = 3, wallheight = 92\<rparr>)
   \<and> map_of (parts (render scenario_A)) CHR ''a'' = Some (InsetEdge \<lparr>inset_thickness = 3\<rparr>)"
proof -
  have pre: "1 \<le> num scenario_A" by (simp add: scenario_A_def)
  have vals: "num scenario_A = 3" "thickness scenario_A = 3" "cardheight scenario_A = 92"
    by (simp_all add: scenario_A_def)
  from divider_panels [OF pre] have
    count: "int (length (labelled ''Divider'' (panels (render scenario_A)))) =
      num scenario_A - 1" and
    finger: "map_of (parts (render scenario_A)) CHR ''A'' =
      Some (FingerHoleEdge \<lparr>fh_thickness = thickness scenario_A,
        wallheight = cardheight scenario_A\<rparr>)" and
    inset: "map_of (parts (render scenario_A)) CHR ''a'' =
      Some (InsetEdge \<lparr>inset_thickness = thickness scenario_A\<rparr>)"
    by blast+
  from pre count finger inset show ?thesis by (simp add: vals)
qed

text \<open>
  The claim as written fails in scenario A: both Divider panels have the edge code
  \<open>fAff\<close>, in which the inset-rail symbol \<open>a\<close> does not occur.
\<close>

theorem divider_without_inset_symbol:
  "map edges (labelled ''Divider'' (panels (render scenario_A))) = [''fAff'', ''fAff'']
   \<and> map_of (parts (render scenario_A)) CHR ''a'' = Some (InsetEdge \<lparr>inset_thickness = 3\<rparr>)
   \<and> CHR ''a'' \<notin> set ''fAff''"
  by (simp add: dividers_render parts_render scenario_A_def numeral_2_eq_2)

text \<open>
  Claim C9, as amended. In every run exactly one Lid Lip panel is emitted, sized
  \<open>boxdepth - 0.2 * thickness\<close> by \<open>thickness\<close>. The height \<open>2 * thickness\<close> belongs
  to the place reserved after it without drawing, sized \<open>boxdepth\<close> by
  \<open>2 * thickness\<close>.
\<close>

theorem lid_lip_panel:
  "labelled ''Lid Lip'' (panels (render p)) =
     [\<lparr>wx = boxdepth p - thickness p * 0.2, wy = thickness p, edges = ''fEeE'', callback = [],
        move = ''right'', label = ''Lid Lip''\<rparr>]
   \<and> last (placeholders (render p)) =
       \<lparr>wx = boxdepth p, wy = thickness p * 2, edges = ''efee'', callback = [],
         move = ''up only'', label = ''''\<rparr>"
  by (simp add: lid_lip_render placeholders_render)

text \<open>
  The claim as written fails in scenario A: the Lid Lip is 73.4 by 3, and
  \<open>2 * thickness\<close> is 6.
\<close>

theorem lid_lip_height_not_doubled:
  "map wx (labelled ''Lid Lip'' (panels (render scenario_A))) = [73.4]
   \<and> map wy (labelled ''Lid Lip'' (panels (render scenario_A))) = [3]
   \<and> map wy (labelled ''Lid Lip'' (panels (render scenario_A))) \<noteq> [2 * thickness scenario_A]
   \<and> 2 * thickness scenario_A = 6"
  by (simp add: lid_lip_render scenario_A_def boxdepth_def)

end
